theory Spec2Isabelle
  imports Complex_Main
begin

section \<open>The MPU-6050 driver of \<open>MyMPU.py\<close>\<close>

text \<open>
  The driver talks to the sensor through an I2C port object and keeps one field of its
  own, the accelerometer range it last selected.  Python integers are \<open>int\<close>, with
  \<open>&\<close>, \<open>|\<close> and \<open><<\<close> as \<open>AND\<close>, \<open>OR\<close> and \<open>push_bit\<close>.  Python floats are
  modelled by the real numbers they denote; rounding is not modelled.  Every exception
  the code can raise is a value of \<open>error\<close>, and an operation returns its outcome
  together with the driver as the operation left it, because an exception does not undo
  what was done before it.
\<close>

unbundle bit_operations_syntax

subsection \<open>Exceptions\<close>

datatype error = ValueError | IndexError | ZeroDivisionError | TransportError

subsection \<open>The I2C port and the device behind it\<close>

text \<open>
  The module \<open>i2c\<close> is not part of the repository.  Its port is modelled as a register
  file: \<open>write_bytes\<close> stores a byte at a register address, \<open>write_read\<close> returns the
  bytes held from an address on.  \<open>trace\<close> lists, oldest first, what the driver did to
  the outside world: the session it opened or closed, every completed transaction, and
  every blocking wait.  \<open>faults\<close> scripts the transport: each transaction takes the
  head of the list, and \<open>True\<close> makes this transaction raise instead of completing;
  the empty list lets every transaction complete.
\<close>

datatype event =
    Start nat int int
  | Stop
  | WriteRead int nat
  | WriteBytes int int
  | Sleep int

record bus =
  regs :: "int \<Rightarrow> int"
  trace :: "event list"
  faults :: "bool list"

definition start :: "nat \<Rightarrow> int \<Rightarrow> int \<Rightarrow> bus \<Rightarrow> bus" where
  "start i2c_name address clock p = p\<lparr>trace := trace p @ [Start i2c_name address clock]\<rparr>"

definition stop :: "bus \<Rightarrow> bus" where
  "stop p = p\<lparr>trace := trace p @ [Stop]\<rparr>"

definition write_read :: "bus \<Rightarrow> int \<Rightarrow> nat \<Rightarrow> (error + int list) \<times> bus" where
  "write_read p register n =
     (case faults p of
        True # fs \<Rightarrow> (Inl TransportError, p\<lparr>faults := fs\<rparr>)
      | _ \<Rightarrow> (Inr (map (\<lambda>k. regs p (register + int k)) [0..<n]),
              p\<lparr>trace := trace p @ [WriteRead register n], faults := tl (faults p)\<rparr>))"

definition write_bytes :: "bus \<Rightarrow> int \<Rightarrow> int \<Rightarrow> (error + unit) \<times> bus" where
  "write_bytes p register byte =
     (case faults p of
        True # fs \<Rightarrow> (Inl TransportError, p\<lparr>faults := fs\<rparr>)
      | _ \<Rightarrow> (Inr (),
              p\<lparr>regs := (regs p)(register := byte),
                trace := trace p @ [WriteBytes register byte],
                faults := tl (faults p)\<rparr>))"

subsection \<open>The driver object\<close>

record mpu =
  accel_full_range :: int
  port :: bus

type_synonym 'a action = "mpu \<Rightarrow> (error + 'a) \<times> mpu"

text \<open>Statement sequencing: the second statement runs only if the first did not raise.\<close>

definition and_then :: "'a action \<Rightarrow> ('a \<Rightarrow> 'b action) \<Rightarrow> 'b action" where
  "and_then f g s = (case f s of (Inl e, s') \<Rightarrow> (Inl e, s') | (Inr a, s') \<Rightarrow> g a s')"

definition seq :: "unit action \<Rightarrow> 'b action \<Rightarrow> 'b action" where
  "seq f g = and_then f (\<lambda>_. g)"

definition raise :: "error \<Rightarrow> 'a action" where
  "raise e s = (Inl e, s)"

text \<open>The same for expressions that touch no state.\<close>

definition sum_then :: "error + 'a \<Rightarrow> ('a \<Rightarrow> error + 'b) \<Rightarrow> error + 'b" where
  "sum_then r g = (case r of Inl e \<Rightarrow> Inl e | Inr a \<Rightarrow> g a)"

text \<open>The built-in \<open>sleep(ms)\<close> blocks the only thread for the given time.\<close>

definition sleep :: "int \<Rightarrow> unit action" where
  "sleep ms s = (Inr (), s\<lparr>port := (port s)\<lparr>trace := trace (port s) @ [Sleep ms]\<rparr>\<rparr>)"

subsection \<open>Register map and scale table\<close>

definition REG_CONFIG :: int where "REG_CONFIG = 0x1A"
definition PWR_MGMT_1 :: int where "PWR_MGMT_1 = 0x6B"
definition PWR_MGMT_2 :: int where "PWR_MGMT_2 = 0x6C"
definition SIGNAL_PATH_RESET :: int where "SIGNAL_PATH_RESET = 0x68"
definition ACCEL_CONFIG :: int where "ACCEL_CONFIG = 0x1C"
definition ACCEL_FIRST_REGISTER :: int where "ACCEL_FIRST_REGISTER = 0x3B"
definition ACCEL_XOUT_H :: int where "ACCEL_XOUT_H = 0x3B"

definition ACCEL_SCALE :: "real list" where
  "ACCEL_SCALE = [16834, 8192, 4096, 2048]"

text \<open>Indexing a tuple: a negative index counts from the end, any other index out of
  range raises \<open>IndexError\<close>.\<close>

definition tuple_index :: "'a list \<Rightarrow> int \<Rightarrow> error + 'a" where
  "tuple_index xs i =
     (if 0 \<le> i \<and> i < int (length xs) then Inr (xs ! nat i)
      else if - int (length xs) \<le> i \<and> i < 0 then Inr (xs ! nat (int (length xs) + i))
      else Inl IndexError)"

text \<open>The float division \<open>a / b\<close>, which raises on a zero divisor.\<close>

definition truediv :: "real \<Rightarrow> real \<Rightarrow> error + real" where
  "truediv a b = (if b = 0 then Inl ZeroDivisionError else Inr (a / b))"

text \<open>\<open>int(f)\<close> on a float: the fractional part is dropped, towards zero.\<close>

definition py_int :: "real \<Rightarrow> int" where
  "py_int r = (if r < 0 then \<lceil>r\<rceil> else \<lfloor>r\<rfloor>)"

subsection \<open>Two's complement\<close>

text \<open>
  \<open>_twos_comp_to_int(val, bits)\<close>.  \<open>1 << (bits - 1)\<close> raises \<open>ValueError\<close> on a
  negative shift count, that is for \<open>bits < 1\<close>.
\<close>

definition twos_comp_to_int :: "int \<Rightarrow> int \<Rightarrow> error + int" where
  "twos_comp_to_int val bits =
     (if bits - 1 < 0 then Inl ValueError
      else if val AND push_bit (nat (bits - 1)) 1 \<noteq> 0
           then Inr (val - push_bit (nat bits) 1)
           else Inr val)"

subsection \<open>Register access\<close>

definition reset_register :: "int \<Rightarrow> unit action" where
  "reset_register register s =
     (case write_bytes (port s) register 0x00 of (r, p) \<Rightarrow> (r, s\<lparr>port := p\<rparr>))"

text \<open>
  \<open>_write_to_register(register, mask, value, starting_bit)\<close>.  The merged byte
  \<open>value_read\<close> is computed, and \<open>value\<close> is what is passed to \<open>write_bytes\<close>.
  The call sites pass the literals 0 to 7 as \<open>starting_bit\<close>, hence \<open>nat\<close>; the
  parameter \<open>mask\<close> is \<open>bitmask\<close> here.
\<close>

definition write_to_register :: "int \<Rightarrow> int \<Rightarrow> int \<Rightarrow> nat \<Rightarrow> unit action" where
  "write_to_register register bitmask val starting_bit s =
     (case write_read (port s) register 1 of
        (Inl e, p) \<Rightarrow> (Inl e, s\<lparr>port := p\<rparr>)
      | (Inr bytes, p) \<Rightarrow>
          (let value_read = hd bytes;
               value_read = value_read AND bitmask;
               value_read = value_read OR push_bit starting_bit val
           in case write_bytes p register val of (r, p') \<Rightarrow> (r, s\<lparr>port := p'\<rparr>)))"

subsection \<open>Configuration setters\<close>

definition set_accelerometer_scale :: "int \<Rightarrow> unit action" where
  "set_accelerometer_scale mode =
     (if mode \<notin> {0, 1, 2, 3} then raise ValueError
      else seq (write_to_register ACCEL_CONFIG 0xE7 mode 3)
               (\<lambda>s. (Inr (), s\<lparr>accel_full_range := mode\<rparr>)))"

definition set_digital_low_pass_filter :: "int \<Rightarrow> unit action" where
  "set_digital_low_pass_filter mode =
     (if mode \<notin> {0, 1, 2, 3, 4, 5, 6, 7} then raise ValueError
      else write_to_register REG_CONFIG 0xF8 mode 0)"

definition set_external_sync :: "int \<Rightarrow> unit action" where
  "set_external_sync mode =
     (if mode \<notin> {0, 1, 2, 3, 4, 5, 6, 7} then raise ValueError
      else write_to_register REG_CONFIG 0xC7 mode 3)"

definition set_clock_source :: "int \<Rightarrow> unit action" where
  "set_clock_source mode =
     (if mode \<notin> {0, 1, 2, 3, 4, 5, 6, 7} then raise ValueError
      else write_to_register PWR_MGMT_1 0xF8 mode 0)"

definition set_sleep :: "int \<Rightarrow> unit action" where
  "set_sleep mode =
     (if mode \<notin> {0, 1} then raise ValueError
      else write_to_register PWR_MGMT_1 0xBF mode 6)"

definition set_temp_on_off :: "int \<Rightarrow> unit action" where
  "set_temp_on_off mode =
     (if mode \<notin> {0, 1} then raise ValueError
      else write_to_register PWR_MGMT_1 0xF7 mode 3)"

definition set_temp_on :: "unit action" where
  "set_temp_on = set_temp_on_off 0"

definition set_temp_off :: "unit action" where
  "set_temp_off = set_temp_on_off 1"

definition set_cycle :: "int \<Rightarrow> unit action" where
  "set_cycle mode =
     (if mode \<notin> {0, 1} then raise ValueError
      else write_to_register PWR_MGMT_1 0xDF mode 5)"

definition set_gyro_axis_on_off :: "int \<Rightarrow> unit action" where
  "set_gyro_axis_on_off mode =
     (if mode \<notin> {0, 1, 2, 3, 4, 5, 6, 7} then raise ValueError
      else write_to_register PWR_MGMT_2 0xF8 mode 0)"

definition set_low_power_wake_up_frequency :: "int \<Rightarrow> unit action" where
  "set_low_power_wake_up_frequency mode =
     (if mode \<notin> {0, 1, 2, 3} then raise ValueError
      else write_to_register PWR_MGMT_2 0x3F mode 6)"

subsection \<open>Reset and low-power protocols\<close>

definition reset_device :: "unit action" where
  "reset_device =
     (let mode = 1 in
      seq (write_to_register PWR_MGMT_1 0x7F mode 7)
     (seq (sleep 100)
     (seq (write_to_register SIGNAL_PATH_RESET 0xF8 7 0)
          (sleep 100))))"

definition set_low_power_accelerometer_only_off_on :: "int \<Rightarrow> int \<Rightarrow> unit action" where
  "set_low_power_accelerometer_only_off_on mode frequency =
     (if mode \<notin> {0, 1} then raise ValueError
      else if frequency \<notin> {0, 1, 2, 3} then raise ValueError
      else if mode = 0 then
        seq (set_cycle 0)
       (seq (set_sleep 0)
       (seq set_temp_on
            (set_gyro_axis_on_off 0)))
      else
        seq (set_cycle 1)
       (seq (set_sleep 0)
       (seq set_temp_off
       (seq (set_gyro_axis_on_off 7)
            (set_low_power_wake_up_frequency frequency)))))"

definition set_low_power_accelerometer_only_off :: "unit action" where
  "set_low_power_accelerometer_only_off = set_low_power_accelerometer_only_off_on 0 0"

text \<open>The parameter \<open>frequency=3\<close> has a default: \<open>None\<close> is the call without it.\<close>

definition set_low_power_accelerometer_only_on :: "int option \<Rightarrow> unit action" where
  "set_low_power_accelerometer_only_on frequency =
     set_low_power_accelerometer_only_off_on 1 (case frequency of None \<Rightarrow> 3 | Some f \<Rightarrow> f)"

subsection \<open>Construction and shutdown\<close>

definition configure_sensor_to_default :: "unit action" where
  "configure_sensor_to_default =
     seq (set_clock_source 1)
    (seq (set_accelerometer_scale 1)
         (set_external_sync 0))"

text \<open>
  \<open>__init__(i2c_name, address)\<close> on a bus \<open>hw\<close>.  The second component is the object as
  far as the constructor built it; its \<open>port\<close> holds the bus as the constructor left it.
\<close>

definition init :: "nat \<Rightarrow> int \<Rightarrow> bus \<Rightarrow> (error + unit) \<times> mpu" where
  "init i2c_name address hw =
     (let self = \<lparr>accel_full_range = 0, port = hw\<rparr>
      in if address \<noteq> 0x68 \<and> address \<noteq> 0x69 then raise ValueError self
         else configure_sensor_to_default
                (self\<lparr>port := start i2c_name address 400000 hw\<rparr>))"

definition close :: "unit action" where
  "close s = (Inr (), s\<lparr>port := stop (port s)\<rparr>)"

subsection \<open>Reading the accelerometer\<close>

text \<open>The dictionaries returned are modelled by the tuples of their values:
  \<open>(x, y, z)\<close> and \<open>(pitch, roll)\<close>.\<close>

definition get_accelerometer_values :: "(real \<times> real \<times> real) action" where
  "get_accelerometer_values s =
     (case write_read (port s) ACCEL_FIRST_REGISTER 6 of
        (Inl e, p) \<Rightarrow> (Inl e, s\<lparr>port := p\<rparr>)
      | (Inr values_read, p) \<Rightarrow>
          (let x = push_bit 8 (values_read ! 0) OR values_read ! 1;
               y = push_bit 8 (values_read ! 2) OR values_read ! 3;
               z = push_bit 8 (values_read ! 4) OR values_read ! 5
           in (sum_then (twos_comp_to_int x 16) (\<lambda>x.
               sum_then (twos_comp_to_int y 16) (\<lambda>y.
               sum_then (twos_comp_to_int z 16) (\<lambda>z.
               sum_then (tuple_index ACCEL_SCALE (accel_full_range s)) (\<lambda>accel_scale.
               sum_then (truediv (of_int x) accel_scale) (\<lambda>x.
               sum_then (truediv (of_int y) accel_scale) (\<lambda>y.
               sum_then (truediv (of_int z) accel_scale) (\<lambda>z.
               Inr (x, y, z)))))))),
               s\<lparr>port := p\<rparr>)))"

definition get_pitch_and_roll :: "(int \<times> int) action" where
  "get_pitch_and_roll s =
     (case get_accelerometer_values s of
        (Inl e, s') \<Rightarrow> (Inl e, s')
      | (Inr (x, y, z), s') \<Rightarrow>
          (sum_then (truediv x (sqrt (y * y + z * z))) (\<lambda>q.
           let pitch = py_int (arctan q * 180 / 3.14) in
           sum_then (truediv y (sqrt (x * x + z * z))) (\<lambda>q.
           let roll = py_int (arctan q * 180 / 3.14) in
           Inr (pitch, roll))),
           s'))"

subsection \<open>The demo application of \<open>main.py\<close>\<close>

text \<open>\<open>Manager.__init__\<close>: the sensor is constructed with the default address
  \<open>0x68\<close>, then low-power mode is switched on with no frequency given.\<close>

definition Manager_init :: "nat \<Rightarrow> bus \<Rightarrow> (error + unit) \<times> mpu" where
  "Manager_init i2c_name hw =
     (case init i2c_name 0x68 hw of
        (Inl e, accelerometer) \<Rightarrow> (Inl e, accelerometer)
      | (Inr _, accelerometer) \<Rightarrow> set_low_power_accelerometer_only_on None accelerometer)"

subsection \<open>Example devices\<close>

text \<open>A bus with the given register contents, on which nothing has happened yet and
  no transaction will fail.\<close>

definition idle_bus :: "(int \<Rightarrow> int) \<Rightarrow> bus" where
  "idle_bus r = \<lparr>regs = r, trace = [], faults = []\<rparr>"

section \<open>Properties\<close>

lemmas register_map =
  REG_CONFIG_def PWR_MGMT_1_def PWR_MGMT_2_def SIGNAL_PATH_RESET_def
  ACCEL_CONFIG_def ACCEL_FIRST_REGISTER_def

subsection \<open>Two's complement decoding\<close>

lemma and_sign_bit_16:
  assumes "0 \<le> v" "v < 65536"
  shows "(v AND push_bit 15 (1::int) \<noteq> 0) = (32768 \<le> v)"
proof -
  have "(v AND push_bit 15 (1::int) \<noteq> 0) = bit v 15"
    by (simp only: bit_iff_and_push_bit_not_eq_0)
  also have "\<dots> = odd (v div 32768)"
    by (simp add: bit_iff_odd)
  also have "\<dots> = (32768 \<le> v)"
  proof (cases "32768 \<le> v")
    case True
    then have "v div 32768 = 1" using assms by simp
    then show ?thesis using True by simp
  next
    case False
    then have "v div 32768 = 0" using assms by simp
    then show ?thesis using False by simp
  qed
  finally show ?thesis .
qed

lemma encode_16_negative:
  assumes "- 32768 \<le> n" "n < 0"
  shows "n mod 65536 = n + (65536::int)"
proof -
  have "(n + 65536) mod 65536 = n + 65536"
    by (rule mod_pos_pos_trivial) (use assms in simp_all)
  moreover have "(n + 65536) mod 65536 = n mod 65536"
    by simp
  ultimately show ?thesis by simp
qed

lemma twos_comp_to_int_16:
  "twos_comp_to_int v 16 = Inr (if bit v 15 then v - 65536 else v)"
proof -
  have "(v AND push_bit 15 (1::int) \<noteq> 0) = bit v 15"
    by (simp only: bit_iff_and_push_bit_not_eq_0)
  then show ?thesis
    unfolding twos_comp_to_int_def by simp
qed

text \<open>The two bytes of a 16-bit pattern, high byte first, put together again, and the
  decoding of the pattern that encodes \<open>n\<close>.\<close>

lemma bytes_of_16:
  "push_bit 8 (v div 256) OR (v mod 256) = (v :: int)"
proof -
  have d: "v div 256 = drop_bit 8 v" by (simp add: drop_bit_eq_div)
  have t: "v mod 256 = take_bit 8 v" by (simp add: take_bit_eq_mod)
  have "push_bit 8 (drop_bit 8 v) AND take_bit 8 v = 0"
    by (rule bit_eqI) (auto simp: bit_simps)
  then have "push_bit 8 (drop_bit 8 v) OR take_bit 8 v = push_bit 8 (drop_bit 8 v) + take_bit 8 v"
    by (simp add: disjunctive_add_eq_or)
  also have "\<dots> = v" by (rule bits_ident)
  finally show ?thesis unfolding d t .
qed

lemma twos_comp_to_int_round_trip:
  assumes "- 32768 \<le> n" and "n \<le> 32767"
  shows "twos_comp_to_int (n mod 65536) 16 = Inr n"
proof -
  have sign: "(n mod 65536 AND push_bit 15 (1::int) \<noteq> 0) = (32768 \<le> n mod 65536)"
    by (rule and_sign_bit_16) simp_all
  show ?thesis
  proof (cases "n < 0")
    case True
    then have "n mod 65536 = n + 65536"
      using assms by (simp add: encode_16_negative)
    with sign True assms show ?thesis
      unfolding twos_comp_to_int_def by simp
  next
    case False
    then have "n mod 65536 = n"
      using assms by simp
    with sign False assms show ?thesis
      unfolding twos_comp_to_int_def by simp
  qed
qed

lemma axis_decoded:
  assumes "- 32768 \<le> r" and "r \<le> 32767"
    and "hi = (r mod 65536) div 256" and "lo = (r mod 65536) mod 256"
  shows "twos_comp_to_int (push_bit 8 hi OR lo) 16 = Inr r"
  using assms(1,2) unfolding assms(3,4) bytes_of_16 by (rule twos_comp_to_int_round_trip)

text \<open>
  Claim C3.  For every integer \<open>n\<close> from \<open>-32768\<close> to \<open>32767\<close>, decoding the 16-bit
  unsigned encoding \<open>n mod 2^16\<close> of \<open>n\<close> gives \<open>n\<close> back; and on every input the
  decoder subtracts \<open>2^16\<close> exactly when bit 15 is set.
\<close>

theorem twos_comp_to_int_decodes_encoding:
  assumes "- 32768 \<le> n" and "n \<le> 32767"
  shows "twos_comp_to_int (n mod 65536) 16 = Inr n
       \<and> twos_comp_to_int v 16 = Inr (if bit v 15 then v - 2 ^ 16 else v)"
proof
  have sign: "(n mod 65536 AND push_bit 15 (1::int) \<noteq> 0) = (32768 \<le> n mod 65536)"
    by (rule and_sign_bit_16) simp_all
  show "twos_comp_to_int (n mod 65536) 16 = Inr n"
  proof (cases "n < 0")
    case True
    then have "n mod 65536 = n + 65536"
      using assms by (simp add: encode_16_negative)
    with sign True assms show ?thesis
      unfolding twos_comp_to_int_def by simp
  next
    case False
    then have "n mod 65536 = n"
      using assms by simp
    with sign False assms show ?thesis
      unfolding twos_comp_to_int_def by simp
  qed
next
  show "twos_comp_to_int v 16 = Inr (if bit v 15 then v - 2 ^ 16 else v)"
    by (simp add: twos_comp_to_int_16)
qed

theorem twos_comp_to_int_decodes_encoding_witness:
  "- 32768 \<le> (- 2 :: int) \<and> (- 2 :: int) \<le> 32767
   \<and> twos_comp_to_int 65534 16 = Inr (- 2)
   \<and> twos_comp_to_int 4096 16 = Inr 4096"
  using twos_comp_to_int_decodes_encoding [of "- 2" 4096] by simp

subsection \<open>The read-modify-write primitive\<close>

lemma write_to_register_ok:
  assumes "faults (port s) = []"
  shows "write_to_register register bitmask val starting_bit s =
     (Inr (), s\<lparr>port := (port s)\<lparr>regs := (regs (port s))(register := val),
        trace := trace (port s) @ [WriteRead register 1, WriteBytes register val]\<rparr>\<rparr>)"
  using assms by (simp add: write_to_register_def write_read_def write_bytes_def)

text \<open>
  Claim C1.  The claim: the byte written to the bus is the prior byte with the field
  cleared and the shifted value merged in.  The code: on a device whose
  accelerometer-config register holds \<open>0xFF\<close>, writing the value 1 into the field at bit 3
  (kept bits \<open>0xE7\<close>) puts the byte \<open>0x01\<close> on the bus, where the merged byte is
  \<open>0xEF\<close>: the value is written as it was passed, and the other bits are lost.
\<close>

theorem write_to_register_writes_unmerged_value:
  "write_to_register ACCEL_CONFIG 0xE7 1 3
     \<lparr>accel_full_range = 0, port = idle_bus (\<lambda>_. 0xFF)\<rparr>
   = (Inr (), \<lparr>accel_full_range = 0,
        port = \<lparr>regs = (\<lambda>_. 0xFF)(0x1C := 0x01),
                 trace = [WriteRead 0x1C 1, WriteBytes 0x1C 0x01], faults = []\<rparr>\<rparr>)
   \<and> (0xFF AND 0xE7) OR push_bit 3 1 = (0xEF :: int)"
  by (simp add: write_to_register_def write_read_def write_bytes_def idle_bus_def register_map)

lemmas run_on_bus =
  seq_def and_then_def raise_def sleep_def write_to_register_def write_read_def
  write_bytes_def idle_bus_def register_map

subsection \<open>Validation of arguments\<close>

text \<open>
  Claim C4.  Every setter called with a mode outside its domain, the low-power switch
  called with a frequency outside 0 to 3, and the constructor called with an address
  other than \<open>0x68\<close> and \<open>0x69\<close> raise \<open>ValueError\<close> and leave the driver and the bus
  exactly as they were: no transaction is issued, and the constructor does not start
  the port.
\<close>

theorem invalid_argument_before_any_transaction:
  "(mode \<notin> {0, 1, 2, 3} \<longrightarrow> set_accelerometer_scale mode s = (Inl ValueError, s))
 \<and> (mode \<notin> {0, 1, 2, 3, 4, 5, 6, 7} \<longrightarrow>
      set_digital_low_pass_filter mode s = (Inl ValueError, s))
 \<and> (mode \<notin> {0, 1, 2, 3, 4, 5, 6, 7} \<longrightarrow> set_external_sync mode s = (Inl ValueError, s))
 \<and> (mode \<notin> {0, 1, 2, 3, 4, 5, 6, 7} \<longrightarrow> set_clock_source mode s = (Inl ValueError, s))
 \<and> (mode \<notin> {0, 1} \<longrightarrow> set_sleep mode s = (Inl ValueError, s))
 \<and> (mode \<notin> {0, 1} \<longrightarrow> set_temp_on_off mode s = (Inl ValueError, s))
 \<and> (mode \<notin> {0, 1} \<longrightarrow> set_cycle mode s = (Inl ValueError, s))
 \<and> (mode \<notin> {0, 1, 2, 3, 4, 5, 6, 7} \<longrightarrow> set_gyro_axis_on_off mode s = (Inl ValueError, s))
 \<and> (mode \<notin> {0, 1, 2, 3} \<longrightarrow>
      set_low_power_wake_up_frequency mode s = (Inl ValueError, s))
 \<and> (mode \<notin> {0, 1} \<or> frequency \<notin> {0, 1, 2, 3} \<longrightarrow>
      set_low_power_accelerometer_only_off_on mode frequency s = (Inl ValueError, s))
 \<and> (frequency \<notin> {0, 1, 2, 3} \<longrightarrow>
      set_low_power_accelerometer_only_on (Some frequency) s = (Inl ValueError, s))
 \<and> (address \<noteq> 0x68 \<and> address \<noteq> 0x69 \<longrightarrow>
      init i2c_name address hw = (Inl ValueError, \<lparr>accel_full_range = 0, port = hw\<rparr>))"
  by (simp add: set_accelerometer_scale_def set_digital_low_pass_filter_def
      set_external_sync_def set_clock_source_def set_sleep_def set_temp_on_off_def
      set_cycle_def set_gyro_axis_on_off_def set_low_power_wake_up_frequency_def
      set_low_power_accelerometer_only_off_on_def set_low_power_accelerometer_only_on_def
      init_def raise_def)

theorem invalid_argument_before_any_transaction_witness:
  "set_accelerometer_scale 8 \<lparr>accel_full_range = 1, port = idle_bus (\<lambda>_. 0)\<rparr>
     = (Inl ValueError, \<lparr>accel_full_range = 1, port = idle_bus (\<lambda>_. 0)\<rparr>)
   \<and> set_cycle 8 \<lparr>accel_full_range = 1, port = idle_bus (\<lambda>_. 0)\<rparr>
     = (Inl ValueError, \<lparr>accel_full_range = 1, port = idle_bus (\<lambda>_. 0)\<rparr>)
   \<and> set_low_power_accelerometer_only_on (Some 4)
         \<lparr>accel_full_range = 1, port = idle_bus (\<lambda>_. 0)\<rparr>
     = (Inl ValueError, \<lparr>accel_full_range = 1, port = idle_bus (\<lambda>_. 0)\<rparr>)
   \<and> init 2 0x6A (idle_bus (\<lambda>_. 0))
     = (Inl ValueError, \<lparr>accel_full_range = 0, port = idle_bus (\<lambda>_. 0)\<rparr>)
   \<and> trace (port (snd (init 2 0x6A (idle_bus (\<lambda>_. 0))))) = []"
  using invalid_argument_before_any_transaction
    [where mode = 8 and frequency = 4 and address = "0x6A" and i2c_name = 2
       and s = "\<lparr>accel_full_range = 1, port = idle_bus (\<lambda>_. 0)\<rparr>"
       and hw = "idle_bus (\<lambda>_. 0)"]
  by (simp add: idle_bus_def)

subsection \<open>The cached accelerometer range\<close>

lemma set_accelerometer_scale_success:
  assumes "set_accelerometer_scale i s = (Inr (), s1)"
  shows "i \<in> {0, 1, 2, 3} \<and> accel_full_range s1 = i"
  using assms
  by (auto simp: set_accelerometer_scale_def seq_def and_then_def raise_def
      write_to_register_def split: if_splits prod.splits sum.splits)

text \<open>A call that raises, for an invalid mode or a failed transaction, leaves the
  cached range as it was.\<close>

lemma set_accelerometer_scale_failure:
  assumes "set_accelerometer_scale i s = (Inl e, s1)"
  shows "accel_full_range s1 = accel_full_range s"
  using assms
  by (auto simp: set_accelerometer_scale_def seq_def and_then_def raise_def
      write_to_register_def split: if_splits prod.splits sum.splits)

text \<open>
  Claim C9.  The claim: the cached range index equals the range field (bits 3 and 4)
  of the last byte successfully written to the accelerometer-config register.  The
  code: \<open>set_accelerometer_scale(1)\<close> on a device with all registers zero succeeds and
  caches 1, and the byte it wrote to register \<open>0x1C\<close> is \<open>0x01\<close>, whose range field is 0.
\<close>

theorem cached_range_differs_from_written_field:
  "set_accelerometer_scale 1 \<lparr>accel_full_range = 0, port = idle_bus (\<lambda>_. 0)\<rparr>
   = (Inr (), \<lparr>accel_full_range = 1,
        port = \<lparr>regs = (\<lambda>_. 0)(0x1C := 0x01),
                 trace = [WriteRead 0x1C 1, WriteBytes 0x1C 0x01], faults = []\<rparr>\<rparr>)
   \<and> drop_bit 3 (0x01 :: int) AND 3 = 0"
  by (simp add: set_accelerometer_scale_def run_on_bus)

subsection \<open>Decoding and scaling a sample\<close>

lemma scale_lookup:
  assumes "i \<in> {0, 1, 2, 3}"
  shows "tuple_index ACCEL_SCALE i = Inr (ACCEL_SCALE ! nat i) \<and> ACCEL_SCALE ! nat i \<noteq> 0"
  using assms by (auto simp: tuple_index_def ACCEL_SCALE_def)

text \<open>
  Claim C2.  After \<open>set_accelerometer_scale(i)\<close> has succeeded, let the transport
  complete the read of the six sample bytes, and let them be, high byte first, the 16-bit
  two's-complement encodings of the raw axis values \<open>rx\<close>, \<open>ry\<close>, \<open>rz\<close> from
  \<open>-32768\<close> to \<open>32767\<close>.  Then \<open>get_accelerometer_values\<close> returns each raw value
  divided by \<open>ACCEL_SCALE[i]\<close>.  The witness holds the scenario of the claim, range
  index 1 and the bytes \<open>0x10, 0x00, 0x00, 0x00, 0x20, 0x00\<close> giving \<open>x = 0.5\<close>,
  \<open>y = 0\<close>, \<open>z = 1\<close>, and a sample of negative values at range index 2.
\<close>

theorem get_accelerometer_values_scaled_by_range:
  assumes "set_accelerometer_scale i s = (Inr (), s1)"
    and "write_read (port s1) ACCEL_FIRST_REGISTER 6 = (Inr bs, p)"
    and "- 32768 \<le> rx" and "rx \<le> 32767"
    and "bs ! 0 = (rx mod 65536) div 256" and "bs ! 1 = (rx mod 65536) mod 256"
    and "- 32768 \<le> ry" and "ry \<le> 32767"
    and "bs ! 2 = (ry mod 65536) div 256" and "bs ! 3 = (ry mod 65536) mod 256"
    and "- 32768 \<le> rz" and "rz \<le> 32767"
    and "bs ! 4 = (rz mod 65536) div 256" and "bs ! 5 = (rz mod 65536) mod 256"
  shows "get_accelerometer_values s1 =
           (Inr (of_int rx / ACCEL_SCALE ! nat i,
                 of_int ry / ACCEL_SCALE ! nat i,
                 of_int rz / ACCEL_SCALE ! nat i), s1\<lparr>port := p\<rparr>)"
proof -
  have i: "i \<in> {0, 1, 2, 3}" and r: "accel_full_range s1 = i"
    using set_accelerometer_scale_success [OF assms(1)] by simp_all
  from i have look: "tuple_index ACCEL_SCALE i = Inr (ACCEL_SCALE ! nat i)"
    and nz: "ACCEL_SCALE ! nat i \<noteq> 0"
    using scale_lookup [of i] by simp_all
  have x: "twos_comp_to_int (push_bit 8 (bs ! 0) OR bs ! 1) 16 = Inr rx"
    using assms(3-6) by (rule axis_decoded)
  have y: "twos_comp_to_int (push_bit 8 (bs ! 2) OR bs ! 3) 16 = Inr ry"
    using assms(7-10) by (rule axis_decoded)
  have z: "twos_comp_to_int (push_bit 8 (bs ! 4) OR bs ! 5) 16 = Inr rz"
    using assms(11-14) by (rule axis_decoded)
  show ?thesis
    using assms(2) r look nz x y z
    by (simp add: get_accelerometer_values_def sum_then_def truediv_def Let_def)
qed

theorem get_accelerometer_values_scaled_by_range_witness:
  "get_accelerometer_values
     (snd (set_accelerometer_scale 1
        \<lparr>accel_full_range = 0, port = idle_bus ((\<lambda>_. 0)(0x3B := 0x10, 0x3F := 0x20))\<rparr>))
   = (Inr (1 / 2, 0, 1),
      \<lparr>accel_full_range = 1,
       port = \<lparr>regs = (\<lambda>_. 0)(0x3B := 0x10, 0x3F := 0x20, 0x1C := 0x01),
                trace = [WriteRead 0x1C 1, WriteBytes 0x1C 0x01, WriteRead 0x3B 6],
                faults = []\<rparr>\<rparr>)
   \<and> get_accelerometer_values
     (snd (set_accelerometer_scale 2
        \<lparr>accel_full_range = 0,
         port = idle_bus ((\<lambda>_. 0)(0x3B := 0xF0, 0x3D := 0xFF, 0x3E := 0xFF, 0x3F := 0x80))\<rparr>))
   = (Inr (- 1, - 1 / 4096, - 8),
      \<lparr>accel_full_range = 2,
       port = \<lparr>regs = (\<lambda>_. 0)(0x3B := 0xF0, 0x3D := 0xFF, 0x3E := 0xFF, 0x3F := 0x80,
                                0x1C := 0x02),
                trace = [WriteRead 0x1C 1, WriteBytes 0x1C 0x02, WriteRead 0x3B 6],
                faults = []\<rparr>\<rparr>)"
proof
  let ?s = "\<lparr>accel_full_range = 0,
             port = idle_bus ((\<lambda>_. 0)(0x3B := 0x10, 0x3F := 0x20))\<rparr>"
  let ?p1 = "\<lparr>regs = (\<lambda>_. 0)(0x3B := 0x10, 0x3F := 0x20, 0x1C := (0x01::int)),
              trace = [WriteRead 0x1C 1, WriteBytes 0x1C 0x01], faults = []\<rparr>"
  let ?s1 = "\<lparr>accel_full_range = 1, port = ?p1\<rparr>"
  have h1: "set_accelerometer_scale 1 ?s = (Inr (), ?s1)"
    by (simp add: set_accelerometer_scale_def run_on_bus)
  have h2: "write_read (port ?s1) ACCEL_FIRST_REGISTER 6
      = (Inr [0x10, 0, 0, 0, 0x20, 0], ?p1\<lparr>trace := trace ?p1 @ [WriteRead 0x3B 6]\<rparr>)"
    by (simp add: write_read_def register_map eval_nat_numeral)
  from get_accelerometer_values_scaled_by_range [OF h1 h2, of 4096 0 8192]
  show "get_accelerometer_values (snd (set_accelerometer_scale 1 ?s))
   = (Inr (1 / 2, 0, 1),
      \<lparr>accel_full_range = 1,
       port = \<lparr>regs = (\<lambda>_. 0)(0x3B := 0x10, 0x3F := 0x20, 0x1C := 0x01),
                trace = [WriteRead 0x1C 1, WriteBytes 0x1C 0x01, WriteRead 0x3B 6],
                faults = []\<rparr>\<rparr>)"
    by (simp add: h1 ACCEL_SCALE_def)
next
  let ?r = "(\<lambda>_. 0)(0x3B := 0xF0, 0x3D := 0xFF, 0x3E := 0xFF, 0x3F := (0x80::int))"
  let ?s = "\<lparr>accel_full_range = 0, port = idle_bus ?r\<rparr>"
  let ?p1 = "\<lparr>regs = ?r(0x1C := (0x02::int)),
              trace = [WriteRead 0x1C 1, WriteBytes 0x1C 0x02], faults = []\<rparr>"
  let ?s1 = "\<lparr>accel_full_range = 2, port = ?p1\<rparr>"
  have h1: "set_accelerometer_scale 2 ?s = (Inr (), ?s1)"
    by (simp add: set_accelerometer_scale_def run_on_bus)
  have h2: "write_read (port ?s1) ACCEL_FIRST_REGISTER 6
      = (Inr [0xF0, 0, 0xFF, 0xFF, 0x80, 0], ?p1\<lparr>trace := trace ?p1 @ [WriteRead 0x3B 6]\<rparr>)"
    by (simp add: write_read_def register_map eval_nat_numeral)
  from get_accelerometer_values_scaled_by_range [OF h1 h2, of "- 4096" "- 1" "- 32768"]
  show "get_accelerometer_values (snd (set_accelerometer_scale 2 ?s))
   = (Inr (- 1, - 1 / 4096, - 8),
      \<lparr>accel_full_range = 2,
       port = \<lparr>regs = ?r(0x1C := 0x02),
                trace = [WriteRead 0x1C 1, WriteBytes 0x1C 0x02, WriteRead 0x3B 6],
                faults = []\<rparr>\<rparr>)"
    by (simp add: h1 ACCEL_SCALE_def)
qed

subsection \<open>Reset and low-power protocols on the bus\<close>

text \<open>
  Claim C7.  The claim: low-power ON with frequency \<open>f\<close> issues five register writes,
  cycle = 1, sleep = 0, temperature off, gyro-axis mask = 7, wake frequency = \<open>f\<close>.
  The code, with \<open>f = 3\<close> on a device with all registers zero: five writes are issued, to
  power-mgmt-1 three times and to power-mgmt-2 twice, and the bytes they carry are
  \<open>0x01\<close>, \<open>0x00\<close>, \<open>0x01\<close>, \<open>0x07\<close>, \<open>0x03\<close>.  The first leaves the cycle bit (bit 5)
  clear, the third leaves the temperature-disable bit (bit 3) clear, and the last
  leaves the wake frequency (bits 6 and 7) at 0.
\<close>

theorem low_power_on_writes_unshifted_values:
  "set_low_power_accelerometer_only_on (Some 3)
     \<lparr>accel_full_range = 1, port = idle_bus (\<lambda>_. 0)\<rparr>
   = (Inr (), \<lparr>accel_full_range = 1,
        port = \<lparr>regs = (\<lambda>_. 0)(0x6B := 0x01, 0x6C := 0x03),
                 trace = [WriteRead 0x6B 1, WriteBytes 0x6B 0x01,
                          WriteRead 0x6B 1, WriteBytes 0x6B 0x00,
                          WriteRead 0x6B 1, WriteBytes 0x6B 0x01,
                          WriteRead 0x6C 1, WriteBytes 0x6C 0x07,
                          WriteRead 0x6C 1, WriteBytes 0x6C 0x03],
                 faults = []\<rparr>\<rparr>)
   \<and> \<not> bit (0x01 :: int) 5 \<and> \<not> bit (0x01 :: int) 3 \<and> drop_bit 6 (0x03 :: int) = 0"
  by (simp add: set_low_power_accelerometer_only_on_def
      set_low_power_accelerometer_only_off_on_def set_cycle_def set_sleep_def
      set_temp_off_def set_temp_on_off_def set_gyro_axis_on_off_def
      set_low_power_wake_up_frequency_def run_on_bus)

text \<open>
  Claim C8.  The claim: the reset protocol writes the device-reset bit (power-mgmt-1,
  bit 7), waits 100 ms, writes the three signal-path-reset bits, waits 100 ms.  The
  code, on a device with all registers zero: the two writes and the two waits happen in
  that order, the second write carries \<open>0x07\<close>, and the first write carries \<open>0x01\<close>,
  in which bit 7 is clear.
\<close>

theorem reset_device_writes_unshifted_reset_bit:
  "reset_device \<lparr>accel_full_range = 1, port = idle_bus (\<lambda>_. 0)\<rparr>
   = (Inr (), \<lparr>accel_full_range = 1,
        port = \<lparr>regs = (\<lambda>_. 0)(0x6B := 0x01, 0x68 := 0x07),
                 trace = [WriteRead 0x6B 1, WriteBytes 0x6B 0x01, Sleep 100,
                          WriteRead 0x68 1, WriteBytes 0x68 0x07, Sleep 100],
                 faults = []\<rparr>\<rparr>)
   \<and> \<not> bit (0x01 :: int) 7"
  by (simp add: reset_device_def run_on_bus)

subsection \<open>The default wake frequency\<close>

text \<open>
  Claim C10.  The claim: called without a frequency, low-power ON uses wake frequency 3,
  and \<open>Manager.__init__\<close> relies on it.  The code: the call without a frequency is the
  call with 3, and \<open>Manager.__init__\<close> on a device with all registers zero succeeds with
  the wake-frequency write as its last transaction; that write carries \<open>0x03\<close>, so
  power-mgmt-2 ends with the wake frequency (bits 6 and 7) at 0, and power-mgmt-1 ends as
  \<open>0x01\<close>, with the cycle bit (bit 5) clear.
\<close>

theorem default_wake_frequency_written_unshifted:
  "set_low_power_accelerometer_only_on None = set_low_power_accelerometer_only_on (Some 3)
   \<and> fst (Manager_init 2 (idle_bus (\<lambda>_. 0))) = Inr ()
   \<and> last (trace (port (snd (Manager_init 2 (idle_bus (\<lambda>_. 0))))))
       = WriteBytes PWR_MGMT_2 0x03
   \<and> regs (port (snd (Manager_init 2 (idle_bus (\<lambda>_. 0))))) PWR_MGMT_2 = 0x03
   \<and> regs (port (snd (Manager_init 2 (idle_bus (\<lambda>_. 0))))) PWR_MGMT_1 = 0x01
   \<and> drop_bit 6 (0x03 :: int) = 0 \<and> \<not> bit (0x01 :: int) 5"
proof -
  have d: "set_low_power_accelerometer_only_on None = set_low_power_accelerometer_only_on (Some 3)"
    by (simp add: set_low_power_accelerometer_only_on_def)
  have m: "Manager_init 2 (idle_bus (\<lambda>_. 0)) =
     (Inr (), \<lparr>accel_full_range = 1,
        port = \<lparr>regs = (\<lambda>_. 0)(0x1C := 0x01, 0x1A := 0x00, 0x6B := 0x01, 0x6C := 0x03),
          trace = [Start 2 0x68 400000,
                   WriteRead 0x6B 1, WriteBytes 0x6B 0x01,
                   WriteRead 0x1C 1, WriteBytes 0x1C 0x01,
                   WriteRead 0x1A 1, WriteBytes 0x1A 0x00,
                   WriteRead 0x6B 1, WriteBytes 0x6B 0x01,
                   WriteRead 0x6B 1, WriteBytes 0x6B 0x00,
                   WriteRead 0x6B 1, WriteBytes 0x6B 0x01,
                   WriteRead 0x6C 1, WriteBytes 0x6C 0x07,
                   WriteRead 0x6C 1, WriteBytes 0x6C 0x03],
          faults = []\<rparr>\<rparr>)"
    by (simp add: set_low_power_accelerometer_only_on_def Manager_init_def init_def
        start_def configure_sensor_to_default_def set_clock_source_def
        set_accelerometer_scale_def set_external_sync_def
        set_low_power_accelerometer_only_off_on_def set_cycle_def set_sleep_def
        set_temp_off_def set_temp_on_off_def set_gyro_axis_on_off_def
        set_low_power_wake_up_frequency_def run_on_bus fun_upd_twist)
  show ?thesis
    unfolding m using d by (simp add: register_map)
qed

subsection \<open>Pitch and roll\<close>

text \<open>What \<open>get_accelerometer_values\<close> returns at range index 1 on a bus where nothing
  fails, and what \<open>get_pitch_and_roll\<close> makes of a sample with no zero denominator.\<close>

lemma sample_read:
  "get_accelerometer_values \<lparr>accel_full_range = 1, port = idle_bus r\<rparr>
   = (Inr (of_int (if bit (push_bit 8 (r 0x3B) OR r 0x3C) 15
                   then (push_bit 8 (r 0x3B) OR r 0x3C) - 65536 else push_bit 8 (r 0x3B) OR r 0x3C) / 8192,
           of_int (if bit (push_bit 8 (r 0x3D) OR r 0x3E) 15
                   then (push_bit 8 (r 0x3D) OR r 0x3E) - 65536 else push_bit 8 (r 0x3D) OR r 0x3E) / 8192,
           of_int (if bit (push_bit 8 (r 0x3F) OR r 0x40) 15
                   then (push_bit 8 (r 0x3F) OR r 0x40) - 65536 else push_bit 8 (r 0x3F) OR r 0x40) / 8192),
      \<lparr>accel_full_range = 1, port = \<lparr>regs = r, trace = [WriteRead 0x3B 6], faults = []\<rparr>\<rparr>)"
  by (simp add: get_accelerometer_values_def write_read_def idle_bus_def register_map
      eval_nat_numeral twos_comp_to_int_16 sum_then_def truediv_def tuple_index_def ACCEL_SCALE_def Let_def)

lemma get_pitch_and_roll_defined:
  assumes "get_accelerometer_values s = (Inr (x, y, z), s')"
    and "y \<noteq> 0 \<or> z \<noteq> 0" and "x \<noteq> 0 \<or> z \<noteq> 0"
  shows "get_pitch_and_roll s =
     (Inr (py_int (arctan (x / sqrt (y * y + z * z)) * 180 / 3.14),
           py_int (arctan (y / sqrt (x * x + z * z)) * 180 / 3.14)), s')"
proof -
  have "y * y + z * z \<noteq> 0" using assms(2) by (simp add: sum_squares_eq_zero_iff)
  moreover have "x * x + z * z \<noteq> 0" using assms(3) by (simp add: sum_squares_eq_zero_iff)
  ultimately show ?thesis
    using assms(1) by (simp add: get_pitch_and_roll_def sum_then_def truediv_def Let_def)
qed

text \<open>
  Claim C6.  The claim: a zero denominator makes the computation fail with a domain error
  of its own instead of the division fault, and the sample \<open>(1.0, 0, 0)\<close> still yields
  \<open>roll = 0\<close>.  The code has no such check.  As amended: whenever the pitch denominator
  is zero (\<open>y = z = 0\<close>) or the roll denominator is zero (\<open>x = z = 0\<close>),
  \<open>get_pitch_and_roll\<close> as a whole raises the \<open>ZeroDivisionError\<close> of the division and
  returns neither pitch nor roll.
\<close>

theorem get_pitch_and_roll_zero_denominator_raises:
  assumes "get_accelerometer_values s = (Inr (x, y, z), s')"
    and "(y = 0 \<and> z = 0) \<or> (x = 0 \<and> z = 0)"
  shows "get_pitch_and_roll s = (Inl ZeroDivisionError, s')"
proof (cases "y = 0 \<and> z = 0")
  case True
  then show ?thesis
    using assms(1) by (simp add: get_pitch_and_roll_def sum_then_def truediv_def)
next
  case False
  with assms(2) have xz: "x = 0" "z = 0" and y: "y \<noteq> 0" by auto
  then show ?thesis
    using assms(1) by (simp add: get_pitch_and_roll_def sum_then_def truediv_def Let_def)
qed

theorem get_pitch_and_roll_zero_denominator_raises_witness:
  "get_accelerometer_values \<lparr>accel_full_range = 1, port = idle_bus ((\<lambda>_. 0)(0x3D := 0x20))\<rparr>
   = (Inr (0, 1, 0), \<lparr>accel_full_range = 1,
       port = \<lparr>regs = (\<lambda>_. 0)(0x3D := 0x20), trace = [WriteRead 0x3B 6], faults = []\<rparr>\<rparr>)
  \<and> get_pitch_and_roll \<lparr>accel_full_range = 1, port = idle_bus ((\<lambda>_. 0)(0x3D := 0x20))\<rparr>
   = (Inl ZeroDivisionError,
      \<lparr>accel_full_range = 1,
       port = \<lparr>regs = (\<lambda>_. 0)(0x3D := 0x20), trace = [WriteRead 0x3B 6], faults = []\<rparr>\<rparr>)"
proof -
  have h: "get_accelerometer_values \<lparr>accel_full_range = 1, port = idle_bus ((\<lambda>_. 0)(0x3D := 0x20))\<rparr>
   = (Inr (0, 1, 0), \<lparr>accel_full_range = 1,
       port = \<lparr>regs = (\<lambda>_. 0)(0x3D := 0x20), trace = [WriteRead 0x3B 6], faults = []\<rparr>\<rparr>)"
    by (simp add: sample_read)
  from get_pitch_and_roll_zero_denominator_raises [OF h] h show ?thesis by simp
qed

text \<open>The sample \<open>(1.0, 0, 0)\<close> of the claim, read at range index 1 from the bytes
  \<open>0x20, 0x00, 0x00, 0x00, 0x00, 0x00\<close>: the call raises the division fault.\<close>

theorem get_pitch_and_roll_zero_denominator_counterexample:
  "get_pitch_and_roll \<lparr>accel_full_range = 1, port = idle_bus ((\<lambda>_. 0)(0x3B := 0x20))\<rparr>
   = (Inl ZeroDivisionError,
      \<lparr>accel_full_range = 1,
       port = \<lparr>regs = (\<lambda>_. 0)(0x3B := 0x20), trace = [WriteRead 0x3B 6], faults = []\<rparr>\<rparr>)
  \<and> fst (get_accelerometer_values \<lparr>accel_full_range = 1, port = idle_bus ((\<lambda>_. 0)(0x3B := 0x20))\<rparr>)
    = Inr (1, 0, 0)"
  by (simp add: get_pitch_and_roll_def sample_read sum_then_def truediv_def)

subsection \<open>Bounds on the arc tangent and on \<open>\<pi>\<close>\<close>

text \<open>Each bound compares derivatives: the difference of the two sides is 0 at 0 and
  does not decrease.\<close>

lemma arctan_le_arg:
  fixes x :: real
  assumes "0 \<le> x"
  shows "arctan x \<le> x"
proof -
  have "(\<lambda>t. t - arctan t) 0 \<le> (\<lambda>t. t - arctan t) x"
  proof (rule DERIV_nonneg_imp_nondecreasing [OF assms])
    fix t :: real
    have d: "((\<lambda>t. t - arctan t) has_real_derivative 1 - inverse (1 + t\<^sup>2)) (at t)"
      by (auto intro!: derivative_eq_intros)
    have "inverse (1 + t\<^sup>2) \<le> 1"
      by (rule inverse_le_1_iff [THEN iffD2]) simp
    then have "0 \<le> 1 - inverse (1 + t\<^sup>2)" by simp
    with d show "\<exists>y. ((\<lambda>t. t - arctan t) has_real_derivative y) (at t) \<and> 0 \<le> y"
      by blast
  qed
  then show ?thesis by simp
qed

lemma arctan_ge_cubic:
  fixes x :: real
  assumes "0 \<le> x"
  shows "x - x ^ 3 / 3 \<le> arctan x"
proof -
  let ?f = "\<lambda>t::real. arctan t - (t - t ^ 3 / 3)"
  have "?f 0 \<le> ?f x"
  proof (rule DERIV_nonneg_imp_nondecreasing [OF assms])
    fix t :: real
    have d: "(?f has_real_derivative inverse (1 + t\<^sup>2) - (1 - t\<^sup>2)) (at t)"
      by (auto intro!: derivative_eq_intros)
    have pos: "0 < 1 + t\<^sup>2" by (simp add: add_pos_nonneg)
    have "(1 - t\<^sup>2) * (1 + t\<^sup>2) \<le> 1"
      by (simp add: algebra_simps power2_eq_square [symmetric] flip: power_mult_distrib)
    then have "1 - t\<^sup>2 \<le> inverse (1 + t\<^sup>2)"
      using pos by (simp add: inverse_eq_divide pos_le_divide_eq)
    then have "0 \<le> inverse (1 + t\<^sup>2) - (1 - t\<^sup>2)" by simp
    with d show "\<exists>y. (?f has_real_derivative y) (at t) \<and> 0 \<le> y"
      by blast
  qed
  then show ?thesis by simp
qed

lemma arctan_le_quintic:
  fixes x :: real
  assumes "0 \<le> x"
  shows "arctan x \<le> x - x ^ 3 / 3 + x ^ 5 / 5"
proof -
  let ?f = "\<lambda>t::real. (t - t ^ 3 / 3 + t ^ 5 / 5) - arctan t"
  have "?f 0 \<le> ?f x"
  proof (rule DERIV_nonneg_imp_nondecreasing [OF assms])
    fix t :: real
    have d: "(?f has_real_derivative (1 - t\<^sup>2 + t ^ 4) - inverse (1 + t\<^sup>2)) (at t)"
      by (auto intro!: derivative_eq_intros)
    have pos: "0 < 1 + t\<^sup>2" by (simp add: add_pos_nonneg)
    have "(1 - t\<^sup>2 + t ^ 4) * (1 + t\<^sup>2) = 1 + t ^ 6"
      by (simp add: algebra_simps power2_eq_square power_numeral_reduce)
    then have "1 \<le> (1 - t\<^sup>2 + t ^ 4) * (1 + t\<^sup>2)" by simp
    then have "inverse (1 + t\<^sup>2) \<le> 1 - t\<^sup>2 + t ^ 4"
      using pos by (simp add: inverse_eq_divide pos_divide_le_eq)
    then have "0 \<le> (1 - t\<^sup>2 + t ^ 4) - inverse (1 + t\<^sup>2)" by simp
    with d show "\<exists>y. (?f has_real_derivative y) (at t) \<and> 0 \<le> y"
      by blast
  qed
  then show ?thesis by simp
qed


lemma pi_bounds: "3.1405 < pi" "pi < 3.1417"
proof -
  have a5l: "(1/5) - (1/5) ^ 3 / 3 \<le> arctan (1/5 :: real)"
    by (rule arctan_ge_cubic) simp
  have a5u: "arctan (1/5 :: real) \<le> (1/5) - (1/5) ^ 3 / 3 + (1/5) ^ 5 / 5"
    by (rule arctan_le_quintic) simp
  have a239u: "arctan (1/239 :: real) \<le> 1/239"
    by (rule arctan_le_arg) simp
  have a239l: "(1/239) - (1/239) ^ 3 / 3 \<le> arctan (1/239 :: real)"
    by (rule arctan_ge_cubic) simp
  have m: "pi = 16 * arctan (1/5) - 4 * arctan (1/239)"
    using machin by simp
  show "3.1405 < pi"
    using a5l a239u unfolding m by (simp add: power_numeral_reduce)
  show "pi < 3.1417"
    using a5u a239l unfolding m by (simp add: power_numeral_reduce)
qed

lemma arctan_8192: "pi / 2 - 1 / 8192 \<le> arctan 8192" "arctan 8192 < pi / 2"
proof -
  have "arctan (1 / 8192 :: real) = sgn (8192 :: real) * pi / 2 - arctan 8192"
    by (rule arctan_inverse) simp
  then have e: "arctan 8192 = pi / 2 - arctan (1 / 8192)" by simp
  have "arctan (1 / 8192 :: real) \<le> 1 / 8192"
    by (rule arctan_le_arg) simp
  then show "pi / 2 - 1 / 8192 \<le> arctan 8192" unfolding e by simp
  show "arctan 8192 < pi / 2" by (rule arctan_ubound)
qed

lemma code_pitch: "py_int (arctan 8192 * 180 / 3.14) = 90"
proof -
  have lo: "90 \<le> arctan 8192 * 180 / 3.14"
    using arctan_8192(1) pi_bounds(1) by simp
  have hi: "arctan 8192 * 180 / 3.14 < 91"
    using arctan_8192(2) pi_bounds(2) by simp
  from lo hi have "\<lfloor>arctan 8192 * 180 / 3.14\<rfloor> = 90"
    by (simp add: floor_eq_iff)
  with lo show ?thesis by (simp add: py_int_def)
qed

lemma claim_pitch: "py_int (arctan 8192 * 180 / pi) = 89"
proof -
  have lo: "89 \<le> arctan 8192 * 180 / pi"
    using arctan_8192(1) pi_bounds(1) by (simp add: field_simps)
  have hi: "arctan 8192 * 180 / pi < 90"
    using arctan_8192(2) by (simp add: field_simps)
  from lo hi have "\<lfloor>arctan 8192 * 180 / pi\<rfloor> = 89"
    by (simp add: floor_eq_iff)
  with lo show ?thesis by (simp add: py_int_def)
qed

lemma ratio_8192: "1 / sqrt (0 * 0 + (1 / 8192) * (1 / 8192)) = (8192 :: real)"
proof -
  have e: "sqrt (0 * 0 + (1 / 8192) * (1 / 8192)) = (1 / 8192 :: real)"
    by (rule real_sqrt_unique) (simp_all add: power2_eq_square)
  show ?thesis unfolding e by simp
qed

text \<open>
  Claim C5.  The claim: pitch and roll are the arc tangents converted to degrees with
  \<open>180 / \<pi>\<close> and truncated.  The code divides by \<open>3.14\<close>.  On the sample
  \<open>(1, 0, 1/8192)\<close>, read at range index 1 from the bytes
  \<open>0x20, 0x00, 0x00, 0x00, 0x00, 0x01\<close>, the code returns pitch 90, where the
  formula of the claim gives 89.  The sample \<open>(0, 0, 1.0)\<close> of the claim does give
  pitch 0 and roll 0.
\<close>

theorem get_pitch_and_roll_uses_3_14:
  "get_pitch_and_roll
     \<lparr>accel_full_range = 1, port = idle_bus ((\<lambda>_. 0)(0x3B := 0x20, 0x40 := 0x01))\<rparr>
   = (Inr (90, 0),
      \<lparr>accel_full_range = 1,
       port = \<lparr>regs = (\<lambda>_. 0)(0x3B := 0x20, 0x40 := 0x01),
                trace = [WriteRead 0x3B 6], faults = []\<rparr>\<rparr>)
   \<and> fst (get_accelerometer_values
       \<lparr>accel_full_range = 1, port = idle_bus ((\<lambda>_. 0)(0x3B := 0x20, 0x40 := 0x01))\<rparr>)
     = Inr (1, 0, 1 / 8192)
   \<and> py_int (arctan (1 / sqrt (0 * 0 + (1 / 8192) * (1 / 8192))) * 180 / pi) = 89
   \<and> get_pitch_and_roll
       \<lparr>accel_full_range = 1, port = idle_bus ((\<lambda>_. 0)(0x3F := 0x20))\<rparr>
     = (Inr (0, 0),
        \<lparr>accel_full_range = 1,
         port = \<lparr>regs = (\<lambda>_. 0)(0x3F := 0x20),
                  trace = [WriteRead 0x3B 6], faults = []\<rparr>\<rparr>)
   \<and> fst (get_accelerometer_values
       \<lparr>accel_full_range = 1, port = idle_bus ((\<lambda>_. 0)(0x3F := 0x20))\<rparr>)
     = Inr (0, 0, 1)"
proof (intro conjI)
  let ?t = "\<lparr>accel_full_range = 1, port = idle_bus ((\<lambda>_. 0)(0x3F := 0x20))\<rparr>"
  let ?t' = "\<lparr>accel_full_range = 1,
       port = \<lparr>regs = (\<lambda>_. 0)(0x3F := (0x20::int)),
                trace = [WriteRead 0x3B 6], faults = []\<rparr>\<rparr>"
  have g: "get_accelerometer_values ?t = (Inr (0, 0, 1), ?t')"
    by (simp add: sample_read)
  then show "fst (get_accelerometer_values ?t) = Inr (0, 0, 1)"
    by simp
  have "get_pitch_and_roll ?t =
     (Inr (py_int (arctan (0 / sqrt (0 * 0 + 1 * 1)) * 180 / 3.14),
           py_int (arctan (0 / sqrt (0 * 0 + 1 * 1)) * 180 / 3.14)), ?t')"
    by (rule get_pitch_and_roll_defined [OF g]) simp_all
  then show "get_pitch_and_roll ?t = (Inr (0, 0), ?t')"
    by (simp add: py_int_def)
next
  let ?s = "\<lparr>accel_full_range = 1, port = idle_bus ((\<lambda>_. 0)(0x3B := 0x20, 0x40 := 0x01))\<rparr>"
  let ?s' = "\<lparr>accel_full_range = 1,
       port = \<lparr>regs = (\<lambda>_. 0)(0x3B := 0x20, 0x40 := (0x01::int)),
                trace = [WriteRead 0x3B 6], faults = []\<rparr>\<rparr>"
  have h: "get_accelerometer_values ?s = (Inr (1, 0, 1 / 8192), ?s')"
    by (simp add: sample_read)
  then show "fst (get_accelerometer_values ?s) = Inr (1, 0, 1 / 8192)"
    by simp
  have "get_pitch_and_roll ?s =
     (Inr (py_int (arctan (1 / sqrt (0 * 0 + (1 / 8192) * (1 / 8192))) * 180 / 3.14),
           py_int (arctan (0 / sqrt (1 * 1 + (1 / 8192) * (1 / 8192))) * 180 / 3.14)), ?s')"
    by (rule get_pitch_and_roll_defined [OF h]) simp_all
  then show "get_pitch_and_roll ?s = (Inr (90, 0), ?s')"
    by (simp only: ratio_8192 code_pitch) (simp add: py_int_def)
  show "py_int (arctan (1 / sqrt (0 * 0 + (1 / 8192) * (1 / 8192))) * 180 / pi) = 89"
    by (simp only: ratio_8192 claim_pitch)
qed

end
